theory Spec2Isabelle
  imports Main "HOL-Library.Signed_Division"
begin

unbundle bit_operations_syntax

section \<open>Values, failures and property accessors (metaobject.h)\<close>

text \<open>
  The library is generic in the property type \<open>T\<close> and in the operand types of an
  expression. The model instantiates them with a small universe: C++ \<open>int\<close>, \<open>bool\<close>,
  a string type (QString), object pointers and pointers to members. An object is
  named by its address; the null pointer is \<open>None\<close>.
\<close>

type_synonym obj = nat

type_synonym signal = string

datatype val =
    VInt int
  | VBool bool
  | VStr string
  | VPtr "obj option"
  | VMem string

datatype ty = TInt | TBool | TStr

text \<open>
  What can go wrong, as values. \<open>AssertFailed\<close> is a failing \<open>Q_ASSERT\<close> (debug build).
  \<open>ArithmeticFault\<close> is an arithmetic operation outside what C++ defines for \<open>int\<close>:
  division by zero, a result outside the 32-bit range, a shift count outside 0..31.
  \<open>DanglingPointer\<close> is an access through a pointer to a destroyed object (or through
  a null pointer that no assertion guards). \<open>IllFormed\<close> is a use the compiler rejects:
  a missing read or write function, a failing \<open>static_assert\<close>, an operator that the
  operand types do not have.
\<close>

datatype error = AssertFailed | ArithmeticFault | DanglingPointer | IllFormed

text \<open>
  \<open>MetaProperty<C, I, T, G, S, N, R>\<close>: the template arguments (the static descriptor)
  and the one data member \<open>C* o\<close>. \<open>G\<close>, \<open>S\<close>, \<open>R\<close> are \<open>void\<close> when the property has no
  read, write or reset function (False here); \<open>N\<close> is \<open>void\<close> when it has no notify
  signal (None here).
\<close>

record MetaProperty =
  Class :: string
  Info :: string
  Type :: ty
  Getter :: bool
  Setter :: bool
  Notify :: "signal option"
  Reset :: bool
  object :: obj

definition isReadable :: "MetaProperty \<Rightarrow> bool" where
  "isReadable p = Getter p"

definition isWritable :: "MetaProperty \<Rightarrow> bool" where
  "isWritable p = Setter p"

definition hasNotifySignal :: "MetaProperty \<Rightarrow> bool" where
  "hasNotifySignal p = (Notify p \<noteq> None)"

definition isResettable :: "MetaProperty \<Rightarrow> bool" where
  "isResettable p = Reset p"


text \<open>\<open>Info::bindingName()\<close> of the \<open>N_PROPERTY\<close> macro.\<close>

definition bindingName :: "MetaProperty \<Rightarrow> string" where
  "bindingName p = ''nwidget_binding_on_'' @ Info p"

section \<open>Expressions (binding.h)\<close>

text \<open>
  The action types of binding.h whose meaning the header fixes: \<open>ActionEmpty\<close>, the
  binary and unary operator actions of \<open>N_IMPL_ACTION_BE\<close> and \<open>N_IMPL_ACTION_UE\<close>,
  \<open>ActionCond\<close>, \<open>ActionMember\<close> and \<open>ActionInvoke\<close>. The actions that only wrap a type
  or a callable of the caller (constructor, call, the casts, address-of and
  content-of) are left out.
\<close>

datatype action =
    ActionEmpty
  | ActionAdd | ActionSub | ActionMul | ActionDiv
  | ActionEQ | ActionNE | ActionLT | ActionLE | ActionGT | ActionGE
  | ActionAnd | ActionOr
  | ActionBitAnd | ActionBitOR | ActionBitXOR | ActionBitLShift | ActionBitRShift
  | ActionPlus | ActionMinus | ActionNot | ActionBitNot
  | ActionCond
  | ActionMember
  | ActionInvoke

text \<open>
  \<open>BindingExpr<Action, Args...>\<close> holds \<open>std::tuple<Args...> args\<close>; an operand is a plain
  value, a \<open>MetaProperty\<close> or another \<open>BindingExpr\<close>, all held by value.
\<close>

datatype arg =
    Literal val
  | Property MetaProperty
  | Expr BindingExpr
and BindingExpr =
    BindingExpr action "arg list"

text \<open>\<open>makeBindingExpr(args...)\<close> with its default action \<open>ActionEmpty\<close>.\<close>

definition makeBindingExpr :: "arg list \<Rightarrow> BindingExpr" where
  "makeBindingExpr as = BindingExpr ActionEmpty as"

section \<open>The world: objects, their attributes, the toolkit's connections\<close>

text \<open>
  Calls that leave the library are recorded in a trace: a read function \<open>G{}(obj)\<close>, a
  write function \<open>S{}(obj, val)\<close>, and the invocation of a slot or functor a binding
  targets (with the receiver it is invoked on, if any).
\<close>

datatype event =
    Read obj string
  | Write obj string val
  | Call "obj option" string "val list"

text \<open>
  The target \<open>Func func\<close> of a binding: a property accessor, a member function pointer
  or any other callable. The two flags of a callable are \<open>std::is_invocable_v\<close> without
  argument and with one argument of the expression's result type.
\<close>

datatype target =
    PropertyTarget MetaProperty
  | MemberFunction string bool bool
  | Functor string bool bool

datatype ConnectionType = AutoConnection | DirectConnection | QueuedConnection

text \<open>
  The lambda \<open>[call, expr = *this]() { call(expr); }\<close> of \<open>bindTo\<close>, where \<open>call\<close> itself
  captures \<open>rece = receiver\<close> and \<open>func\<close>.
\<close>

record closure =
  rece :: "obj option"
  func :: target
  expr :: BindingExpr

text \<open>
  A \<open>QSignalMapper\<close> (the fan-in object of a binding): its identity, its parent, its
  object name, the senders that \<open>setMapping(sender, 0)\<close> registered, and the slots
  connected to its signal \<open>mappedInt\<close>, in connection order.
\<close>

record QSignalMapper =
  mid :: nat
  parent :: "obj option"
  objectName :: string
  intHash :: "obj list"
  mappedInt :: "(closure \<times> ConnectionType) list"

text \<open>
  The signals of a source object the library connects, and the two slots of a
  mapper it connects them to.
\<close>

datatype sig = Destroyed | Changed signal

datatype slot = DeleteLater | Map

type_synonym connection = "obj \<times> sig \<times> nat \<times> slot"

text \<open>Events posted to the event loop: a deferred deletion, a queued slot call.\<close>

datatype posted_event = DeferredDelete nat | MetaCall nat closure

text \<open>
  The state the library runs in. \<open>alive\<close> tells which objects exist; \<open>attrs\<close> holds what
  the read functions and member reads of an object return; \<open>methods\<close> is the meaning
  of the member functions \<open>ActionInvoke\<close> calls; \<open>trace\<close> is described above. The rest
  is the toolkit's own state: the mappers in creation order, the connections from
  source objects to mappers in connection order, the event queue, and the next
  unused mapper identity.
\<close>

record world =
  alive :: "obj \<Rightarrow> bool"
  attrs :: "obj \<Rightarrow> string \<Rightarrow> val"
  methods :: "string \<Rightarrow> obj \<Rightarrow> val list \<Rightarrow> error + val"
  trace :: "event list"
  mappers :: "QSignalMapper list"
  connections :: "connection list"
  posted :: "posted_event list"
  next_mid :: nat

definition log :: "world \<Rightarrow> event list \<Rightarrow> world" where
  "log w es = w\<lparr>trace := trace w @ es\<rparr>"

text \<open>
  \<open>T get() const { return read(o); }\<close> and \<open>void set(const T& val) const { write(o, val); }\<close>.
  Without a read (write) function the call does not compile. The read and write
  functions belong to the owning object's class: here a read returns the
  attribute and a write stores it. A change signal that the object emits on a
  write is a step of its own (\<open>emit\<close> below), not part of \<open>set\<close>.
\<close>

definition get :: "world \<Rightarrow> MetaProperty \<Rightarrow> error + (val \<times> event list)" where
  "get w p =
     (if \<not> isReadable p then Inl IllFormed
      else if \<not> alive w (object p) then Inl DanglingPointer
      else Inr (attrs w (object p) (Info p), [Read (object p) (Info p)]))"

definition set' :: "world \<Rightarrow> MetaProperty \<Rightarrow> val \<Rightarrow> error + world" where
  "set' w p v =
     (if \<not> isWritable p then Inl IllFormed
      else if \<not> alive w (object p) then Inl DanglingPointer
      else Inr (log (w\<lparr>attrs := (attrs w)(object p := (attrs w (object p))(Info p := v))\<rparr>)
                  [Write (object p) (Info p) v]))"

section \<open>The C++ operators on the modelled values\<close>

text \<open>
  An \<open>int\<close> result must lie in the 32-bit range; outside it C++ leaves the behaviour
  undefined.
\<close>

definition int_result :: "int \<Rightarrow> error + val" where
  "int_result i = (if - (2 ^ 31) \<le> i \<and> i < 2 ^ 31 then Inr (VInt i) else Inl ArithmeticFault)"

fun op_add :: "val \<Rightarrow> val \<Rightarrow> error + val" where
  "op_add (VInt a) (VInt b) = int_result (a + b)"
| "op_add (VStr a) (VStr b) = Inr (VStr (a @ b))"
| "op_add _ _ = Inl IllFormed"

fun op_sub :: "val \<Rightarrow> val \<Rightarrow> error + val" where
  "op_sub (VInt a) (VInt b) = int_result (a - b)"
| "op_sub _ _ = Inl IllFormed"

fun op_mul :: "val \<Rightarrow> val \<Rightarrow> error + val" where
  "op_mul (VInt a) (VInt b) = int_result (a * b)"
| "op_mul _ _ = Inl IllFormed"

text \<open>C++ division truncates towards zero (\<open>sdiv\<close>, \<open>smod\<close>); a zero divisor is undefined.\<close>

fun op_div :: "val \<Rightarrow> val \<Rightarrow> error + val" where
  "op_div (VInt a) (VInt b) = (if b = 0 then Inl ArithmeticFault else int_result (a sdiv b))"
| "op_div _ _ = Inl IllFormed"

fun op_mod :: "val \<Rightarrow> val \<Rightarrow> error + val" where
  "op_mod (VInt a) (VInt b) =
     (if b = 0 then Inl ArithmeticFault
      else case int_result (a sdiv b) of Inl x \<Rightarrow> Inl x | Inr _ \<Rightarrow> Inr (VInt (a smod b)))"
| "op_mod _ _ = Inl IllFormed"

fun op_eq :: "val \<Rightarrow> val \<Rightarrow> error + val" where
  "op_eq (VInt a) (VInt b) = Inr (VBool (a = b))"
| "op_eq (VBool a) (VBool b) = Inr (VBool (a = b))"
| "op_eq (VStr a) (VStr b) = Inr (VBool (a = b))"
| "op_eq (VPtr a) (VPtr b) = Inr (VBool (a = b))"
| "op_eq _ _ = Inl IllFormed"

fun op_ne :: "val \<Rightarrow> val \<Rightarrow> error + val" where
  "op_ne (VInt a) (VInt b) = Inr (VBool (a \<noteq> b))"
| "op_ne (VBool a) (VBool b) = Inr (VBool (a \<noteq> b))"
| "op_ne (VStr a) (VStr b) = Inr (VBool (a \<noteq> b))"
| "op_ne (VPtr a) (VPtr b) = Inr (VBool (a \<noteq> b))"
| "op_ne _ _ = Inl IllFormed"

fun op_lt :: "val \<Rightarrow> val \<Rightarrow> error + val" where
  "op_lt (VInt a) (VInt b) = Inr (VBool (a < b))"
| "op_lt _ _ = Inl IllFormed"

fun op_le :: "val \<Rightarrow> val \<Rightarrow> error + val" where
  "op_le (VInt a) (VInt b) = Inr (VBool (a \<le> b))"
| "op_le _ _ = Inl IllFormed"

fun op_gt :: "val \<Rightarrow> val \<Rightarrow> error + val" where
  "op_gt (VInt a) (VInt b) = Inr (VBool (a > b))"
| "op_gt _ _ = Inl IllFormed"

fun op_ge :: "val \<Rightarrow> val \<Rightarrow> error + val" where
  "op_ge (VInt a) (VInt b) = Inr (VBool (a \<ge> b))"
| "op_ge _ _ = Inl IllFormed"

text \<open>
  \<open>l && r\<close> and \<open>l || r\<close> inside an action: both operands are values already, so the
  operator only combines them.
\<close>

fun op_land :: "val \<Rightarrow> val \<Rightarrow> error + val" where
  "op_land (VBool a) (VBool b) = Inr (VBool (a \<and> b))"
| "op_land _ _ = Inl IllFormed"

fun op_lor :: "val \<Rightarrow> val \<Rightarrow> error + val" where
  "op_lor (VBool a) (VBool b) = Inr (VBool (a \<or> b))"
| "op_lor _ _ = Inl IllFormed"

fun op_bitand :: "val \<Rightarrow> val \<Rightarrow> error + val" where
  "op_bitand (VInt a) (VInt b) = Inr (VInt (a AND b))"
| "op_bitand _ _ = Inl IllFormed"

fun op_bitor :: "val \<Rightarrow> val \<Rightarrow> error + val" where
  "op_bitor (VInt a) (VInt b) = Inr (VInt (a OR b))"
| "op_bitor _ _ = Inl IllFormed"

fun op_bitxor :: "val \<Rightarrow> val \<Rightarrow> error + val" where
  "op_bitxor (VInt a) (VInt b) = Inr (VInt (a XOR b))"
| "op_bitxor _ _ = Inl IllFormed"

text \<open>
  Shifts are defined for a count in 0..31; a left shift moreover for a non-negative
  left operand whose result fits.
\<close>

fun op_shl :: "val \<Rightarrow> val \<Rightarrow> error + val" where
  "op_shl (VInt a) (VInt n) =
     (if 0 \<le> n \<and> n < 32 \<and> 0 \<le> a then int_result (a * 2 ^ nat n) else Inl ArithmeticFault)"
| "op_shl _ _ = Inl IllFormed"

fun op_shr :: "val \<Rightarrow> val \<Rightarrow> error + val" where
  "op_shr (VInt a) (VInt n) =
     (if 0 \<le> n \<and> n < 32 then Inr (VInt (drop_bit (nat n) a)) else Inl ArithmeticFault)"
| "op_shr _ _ = Inl IllFormed"

fun op_plus :: "val \<Rightarrow> error + val" where
  "op_plus (VInt a) = Inr (VInt a)"
| "op_plus _ = Inl IllFormed"

fun op_minus :: "val \<Rightarrow> error + val" where
  "op_minus (VInt a) = int_result (- a)"
| "op_minus _ = Inl IllFormed"

fun op_not :: "val \<Rightarrow> error + val" where
  "op_not (VBool a) = Inr (VBool (\<not> a))"
| "op_not _ = Inl IllFormed"

fun op_bitnot :: "val \<Rightarrow> error + val" where
  "op_bitnot (VInt a) = Inr (VInt (NOT a))"
| "op_bitnot _ = Inl IllFormed"

section \<open>Actions and evaluation\<close>

text \<open>\<open>N_IMPL_ACTION_BE(NAME, OP)\<close>: the action returns \<open>l OP r\<close>.\<close>

fun binary_action :: "action \<Rightarrow> (val \<Rightarrow> val \<Rightarrow> error + val) option" where
  "binary_action ActionAdd = Some op_add"
| "binary_action ActionSub = Some op_sub"
| "binary_action ActionMul = Some op_mul"
| "binary_action ActionDiv = Some op_div"
| "binary_action ActionEQ = Some op_eq"
| "binary_action ActionNE = Some op_ne"
| "binary_action ActionLT = Some op_lt"
| "binary_action ActionLE = Some op_le"
| "binary_action ActionGT = Some op_gt"
| "binary_action ActionGE = Some op_ge"
| "binary_action ActionAnd = Some op_land"
| "binary_action ActionOr = Some op_lor"
| "binary_action ActionBitAnd = Some op_bitand"
| "binary_action ActionBitOR = Some op_bitor"
| "binary_action ActionBitXOR = Some op_bitxor"
| "binary_action ActionBitLShift = Some op_shl"
| "binary_action ActionBitRShift = Some op_shr"
| "binary_action _ = None"

text \<open>\<open>ActionEmpty\<close> returns its operand; \<open>N_IMPL_ACTION_UE(NAME, OP)\<close> returns \<open>OP val\<close>.\<close>

fun unary_action :: "action \<Rightarrow> (val \<Rightarrow> error + val) option" where
  "unary_action ActionEmpty = Some Inr"
| "unary_action ActionPlus = Some op_plus"
| "unary_action ActionMinus = Some op_minus"
| "unary_action ActionNot = Some op_not"
| "unary_action ActionBitNot = Some op_bitnot"
| "unary_action _ = None"

text \<open>\<open>ActionCond\<close>: \<open>return a ? b : c;\<close> on three values.\<close>

fun ActionCond_call :: "val list \<Rightarrow> error + val" where
  "ActionCond_call [VBool a, b, c] = Inr (if a then b else c)"
| "ActionCond_call _ = Inl IllFormed"

text \<open>
  \<open>ActionMember\<close> and \<open>ActionInvoke\<close> on a pointer operand: \<open>Q_ASSERT(obj)\<close>, then
  \<open>obj->*mem\<close> or \<open>(obj->*fn)(args...)\<close>.
\<close>

fun ActionMember_call :: "world \<Rightarrow> val list \<Rightarrow> error + val" where
  "ActionMember_call w [VPtr None, VMem m] = Inl AssertFailed"
| "ActionMember_call w [VPtr (Some a), VMem m] =
     (if alive w a then Inr (attrs w a m) else Inl DanglingPointer)"
| "ActionMember_call w _ = Inl IllFormed"

fun ActionInvoke_call :: "world \<Rightarrow> val list \<Rightarrow> error + val" where
  "ActionInvoke_call w (VPtr None # VMem fn # args) = Inl AssertFailed"
| "ActionInvoke_call w (VPtr (Some a) # VMem fn # args) =
     (if alive w a then methods w fn a args else Inl DanglingPointer)"
| "ActionInvoke_call w _ = Inl IllFormed"

text \<open>\<open>Action{}(values...)\<close>, as \<open>std::apply\<close> calls it on the tuple of operand values.\<close>

definition apply_action :: "world \<Rightarrow> action \<Rightarrow> val list \<Rightarrow> error + val" where
  "apply_action w act vs =
     (case binary_action act of
        Some f \<Rightarrow> (case vs of [l, r] \<Rightarrow> f l r | _ \<Rightarrow> Inl IllFormed)
      | None \<Rightarrow>
          (case unary_action act of
             Some f \<Rightarrow> (case vs of [v] \<Rightarrow> f v | _ \<Rightarrow> Inl IllFormed)
           | None \<Rightarrow>
               (if act = ActionCond then ActionCond_call vs
                else if act = ActionMember then ActionMember_call w vs
                else if act = ActionInvoke then ActionInvoke_call w vs
                else Inl IllFormed)))"

text \<open>
  \<open>impl::binding::eval\<close> (three overloads: a plain value, a property, an expression)
  and \<open>BindingExpr::eval\<close>, which applies the action to the tuple of the evaluated
  operands. Each returns the value and the read calls it made.
\<close>

text \<open>
  Modelled from the spec: \<open>impl::utils::for_each\<close> of utils.h, which is not among the
  sources. The spec has every operand evaluated on its own, from left to right,
  and the action run on the results; \<open>eval_args\<close> is that loop over the tuple. (The
  result must be a tuple of values in any case: \<open>std::apply\<close> passes its elements to
  the action.)
\<close>

fun eval_arg :: "world \<Rightarrow> arg \<Rightarrow> error + (val \<times> event list)"
  and eval_args :: "world \<Rightarrow> arg list \<Rightarrow> error + (val list \<times> event list)"
  and eval :: "world \<Rightarrow> BindingExpr \<Rightarrow> error + (val \<times> event list)" where
  "eval_arg w (Literal v) = Inr (v, [])"
| "eval_arg w (Property p) = get w p"
| "eval_arg w (Expr e) = eval w e"
| "eval_args w [] = Inr ([], [])"
| "eval_args w (a # as) =
     (case eval_arg w a of
        Inl x \<Rightarrow> Inl x
      | Inr (v, r) \<Rightarrow>
          (case eval_args w as of
             Inl x \<Rightarrow> Inl x
           | Inr (vs, rs) \<Rightarrow> Inr (v # vs, r @ rs)))"
| "eval w (BindingExpr act as) =
     (case eval_args w as of
        Inl x \<Rightarrow> Inl x
      | Inr (vs, rs) \<Rightarrow>
          (case apply_action w act vs of
             Inl x \<Rightarrow> Inl x
           | Inr v \<Rightarrow> Inr (v, rs)))"

text \<open>
  \<open>impl::binding::is_observable\<close>: false for a plain operand type, \<open>hasNotifySignal\<close>
  for a property, the fold \<open>(... || is_observable_v<Args>)\<close> for an expression.
\<close>

fun is_observable :: "arg \<Rightarrow> bool"
  and is_observable_pack :: "arg list \<Rightarrow> bool"
  and isObservable :: "BindingExpr \<Rightarrow> bool" where
  "is_observable (Literal v) = False"
| "is_observable (Property p) = hasNotifySignal p"
| "is_observable (Expr e) = isObservable e"
| "is_observable_pack [] = False"
| "is_observable_pack (a # as) = (is_observable a \<or> is_observable_pack as)"
| "isObservable (BindingExpr act as) = is_observable_pack as"

text \<open>The property leaves of an expression, from left to right.\<close>

fun leaves_arg :: "arg \<Rightarrow> MetaProperty list"
  and leaves_args :: "arg list \<Rightarrow> MetaProperty list"
  and leaves :: "BindingExpr \<Rightarrow> MetaProperty list" where
  "leaves_arg (Literal v) = []"
| "leaves_arg (Property p) = [p]"
| "leaves_arg (Expr e) = leaves e"
| "leaves_args [] = []"
| "leaves_args (a # as) = leaves_arg a @ leaves_args as"
| "leaves (BindingExpr act as) = leaves_args as"

section \<open>The toolkit operations the library calls\<close>

text \<open>
  The object tree, the connections and the event loop belong to the toolkit (Qt), an
  external collaborator; the definitions of this section state what the calls made
  by binding.h do there, as the toolkit documents them and as section 6 of the spec
  sums them up: named lookup among direct children, connection with duplicate
  suppression (\<open>Qt::UniqueConnection\<close>), deferred destruction, and the destruction
  signal. All objects live in one thread, so an \<open>AutoConnection\<close> delivers directly.
\<close>

definition find_mapper :: "world \<Rightarrow> nat \<Rightarrow> QSignalMapper option" where
  "find_mapper w b = find (\<lambda>m. mid m = b) (mappers w)"

definition update_mapper :: "nat \<Rightarrow> (QSignalMapper \<Rightarrow> QSignalMapper) \<Rightarrow> world \<Rightarrow> world" where
  "update_mapper b f w = w\<lparr>mappers := map (\<lambda>m. if mid m = b then f m else m) (mappers w)\<rparr>"

text \<open>\<open>receiver->findChild<QSignalMapper*>(name, Qt::FindDirectChildrenOnly)\<close>.\<close>

definition findChild :: "world \<Rightarrow> obj \<Rightarrow> string \<Rightarrow> nat option" where
  "findChild w r name =
     map_option mid (find (\<lambda>m. parent m = Some r \<and> objectName m = name) (mappers w))"

text \<open>\<open>new QSignalMapper(receiver)\<close> followed by \<open>setObjectName(name)\<close>.\<close>

definition new_QSignalMapper :: "world \<Rightarrow> obj option \<Rightarrow> string \<Rightarrow> nat \<times> world" where
  "new_QSignalMapper w r name =
     (next_mid w,
      w\<lparr>mappers := mappers w @
           [\<lparr>mid = next_mid w, parent = r, objectName = name, intHash = [], mappedInt = []\<rparr>],
        next_mid := Suc (next_mid w)\<rparr>)"

text \<open>\<open>QObject::connect(sender, signal, binding, slot, Qt::UniqueConnection)\<close>.\<close>

definition connect :: "world \<Rightarrow> connection \<Rightarrow> world" where
  "connect w c = (if c \<in> set (connections w) then w else w\<lparr>connections := connections w @ [c]\<rparr>)"

text \<open>\<open>binding->setMapping(sender, 0)\<close>.\<close>

definition setMapping :: "world \<Rightarrow> nat \<Rightarrow> obj \<Rightarrow> world" where
  "setMapping w b sender = update_mapper b (\<lambda>m. m\<lparr>intHash := List.insert sender (intHash m)\<rparr>) w"

text \<open>\<open>QObject::connect(binding, &QSignalMapper::mappedInt, binding, functor, type)\<close>.\<close>

definition connect_functor :: "world \<Rightarrow> nat \<Rightarrow> closure \<Rightarrow> ConnectionType \<Rightarrow> world" where
  "connect_functor w b c t = update_mapper b (\<lambda>m. m\<lparr>mappedInt := mappedInt m @ [(c, t)]\<rparr>) w"

text \<open>
  \<open>binding->disconnect()\<close>: disconnects everything connected to the signals of
  \<open>binding\<close>, that is, the slots on \<open>mappedInt\<close>. Connections that end in a slot of
  \<open>binding\<close> are connections of their senders' signals and stay.
\<close>

definition disconnect :: "world \<Rightarrow> nat \<Rightarrow> world" where
  "disconnect w b = update_mapper b (\<lambda>m. m\<lparr>mappedInt := []\<rparr>) w"

text \<open>\<open>binding->deleteLater()\<close>: posts the deletion; a second call adds nothing.\<close>

definition deleteLater :: "world \<Rightarrow> nat \<Rightarrow> world" where
  "deleteLater w b =
     (if DeferredDelete b \<in> set (posted w) then w
      else w\<lparr>posted := posted w @ [DeferredDelete b]\<rparr>)"

section \<open>Wiring (binding.h)\<close>

text \<open>
  \<open>bind1\<close>, \<open>bind0\<close> and \<open>bind\<close> of \<open>impl::binding\<close>. A property without notify signal
  is skipped; for one with a signal, the owning object's \<open>destroyed\<close> is connected to
  the mapper's \<open>deleteLater\<close>, its notify signal to the mapper's \<open>map\<close>, and the object
  gets a mapping. \<open>bind_each\<close> is the \<open>for_each\<close> loop of \<open>bind0\<close> over the operands (see
  \<open>eval_args\<close>).
\<close>

definition bind1 :: "world \<Rightarrow> nat \<Rightarrow> MetaProperty \<Rightarrow> error + world" where
  "bind1 w binding prop =
     (case Notify prop of
        None \<Rightarrow> Inr w
      | Some n \<Rightarrow>
          (if \<not> alive w (object prop) then Inl DanglingPointer
           else Inr (setMapping
                  (connect (connect w (object prop, Destroyed, binding, DeleteLater))
                     (object prop, Changed n, binding, Map))
                  binding (object prop))))"

fun bind :: "world \<Rightarrow> nat \<Rightarrow> arg \<Rightarrow> error + world"
  and bind_each :: "world \<Rightarrow> nat \<Rightarrow> arg list \<Rightarrow> error + world"
  and bind0 :: "world \<Rightarrow> nat \<Rightarrow> BindingExpr \<Rightarrow> error + world" where
  "bind w binding (Literal v) = Inr w"
| "bind w binding (Property p) = bind1 w binding p"
| "bind w binding (Expr e) = bind0 w binding e"
| "bind_each w binding [] = Inr w"
| "bind_each w binding (a # as) =
     (case bind w binding a of Inl x \<Rightarrow> Inl x | Inr w1 \<Rightarrow> bind_each w1 binding as)"
| "bind0 w binding (BindingExpr act as) = bind_each w binding as"

text \<open>\<open>(rece->*func)(args...)\<close> of the lambda \<open>call\<close>.\<close>

definition invoke_slot :: "world \<Rightarrow> obj option \<Rightarrow> string \<Rightarrow> val list \<Rightarrow> error + world" where
  "invoke_slot w r f args =
     (case r of
        None \<Rightarrow> Inl DanglingPointer
      | Some a \<Rightarrow> if alive w a then Inr (log w [Call (Some a) f args]) else Inl DanglingPointer)"

text \<open>The lambda \<open>call\<close> of \<open>bindTo\<close>, applied to the expression it is given.\<close>

definition call :: "world \<Rightarrow> closure \<Rightarrow> error + world" where
  "call w c =
     (case func c of
        PropertyTarget p \<Rightarrow>
          (case eval w (expr c) of
             Inl x \<Rightarrow> Inl x
           | Inr (v, r) \<Rightarrow> set' (log w r) p v)
      | MemberFunction f inv0 inv1 \<Rightarrow>
          (if inv0 then invoke_slot w (rece c) f []
           else if inv1 then
             (case eval w (expr c) of
                Inl x \<Rightarrow> Inl x
              | Inr (v, r) \<Rightarrow> invoke_slot (log w r) (rece c) f [v])
           else Inr w)
      | Functor f inv0 inv1 \<Rightarrow>
          (if inv0 then Inr (log w [Call None f []])
           else if inv1 then
             (case eval w (expr c) of
                Inl x \<Rightarrow> Inl x
              | Inr (v, r) \<Rightarrow> Inr (log (log w r) [Call None f [v]]))
           else Inr w))"

text \<open>The \<open>static_assert\<close> of \<open>bindTo\<close> ("Invalid slot").\<close>

definition valid_slot :: "target \<Rightarrow> bool" where
  "valid_slot f =
     (case f of
        PropertyTarget p \<Rightarrow> True
      | MemberFunction n inv0 inv1 \<Rightarrow> inv0 \<or> inv1
      | Functor n inv0 inv1 \<Rightarrow> inv0 \<or> inv1)"

text \<open>
  Lines 221 to 224 of \<open>bindTo\<close>, which both the branch that reuses a mapper and the
  branch that creates one run into: \<open>bind\<close>, the connection of the lambda to
  \<open>mappedInt\<close>, and \<open>call(*this)\<close>.
\<close>

definition bindTo_wire :: "world \<Rightarrow> nat \<Rightarrow> closure \<Rightarrow> ConnectionType \<Rightarrow> error + world" where
  "bindTo_wire w binding c t =
     (case bind0 w binding (expr c) of
        Inl x \<Rightarrow> Inl x
      | Inr w1 \<Rightarrow> call (connect_functor w1 binding c t) c)"

text \<open>The private \<open>bindTo(receiver, func, type, name)\<close>.\<close>

definition bindTo ::
  "world \<Rightarrow> BindingExpr \<Rightarrow> obj option \<Rightarrow> target \<Rightarrow> ConnectionType \<Rightarrow> string \<Rightarrow> error + world" where
  "bindTo w this receiver f t name =
     (if \<not> valid_slot f then Inl IllFormed
      else
        (case receiver of
           None \<Rightarrow>
             (case new_QSignalMapper w receiver name of
                (b, w1) \<Rightarrow> bindTo_wire w1 b \<lparr>rece = receiver, func = f, expr = this\<rparr> t)
         | Some r \<Rightarrow>
             (if \<not> alive w r then Inl DanglingPointer
              else
                (case findChild w r name of
                   Some b \<Rightarrow>
                     (if isObservable this
                      then bindTo_wire (disconnect w b) b
                             \<lparr>rece = receiver, func = f, expr = this\<rparr> t
                      else
                        (case call w \<lparr>rece = receiver, func = f, expr = this\<rparr> of
                           Inl x \<Rightarrow> Inl x
                         | Inr w1 \<Rightarrow> Inr (deleteLater w1 b)))
                 | None \<Rightarrow>
                     (case new_QSignalMapper w receiver name of
                        (b, w1) \<Rightarrow>
                          bindTo_wire w1 b \<lparr>rece = receiver, func = f, expr = this\<rparr> t)))))"

text \<open>
  The public overloads. The binding name of a callable target is the prefix
  \<open>nwidget_binding_to_func::\<close> followed by the compiler's rendering of the enclosing
  function's signature (\<open>__PRETTY_FUNCTION__\<close>), a parameter here. The overload with a
  receiver passes \<open>Qt::DirectConnection\<close> whatever its \<open>type\<close> argument is.
\<close>

definition bindTo_property ::
  "world \<Rightarrow> BindingExpr \<Rightarrow> MetaProperty \<Rightarrow> ConnectionType \<Rightarrow> error + world" where
  "bindTo_property w this prop t =
     bindTo w this (Some (object prop)) (PropertyTarget prop) t (bindingName prop)"

definition bindTo_func :: "world \<Rightarrow> BindingExpr \<Rightarrow> target \<Rightarrow> string \<Rightarrow> error + world" where
  "bindTo_func w this f pretty =
     bindTo w this None f DirectConnection (''nwidget_binding_to_func::'' @ pretty)"

definition bindTo_receiver ::
  "world \<Rightarrow> BindingExpr \<Rightarrow> obj option \<Rightarrow> target \<Rightarrow> ConnectionType \<Rightarrow> string \<Rightarrow> error + world" where
  "bindTo_receiver w this receiver f t pretty =
     bindTo w this receiver f DirectConnection (''nwidget_binding_to_func::'' @ pretty)"

section \<open>Signals and the event loop\<close>

text \<open>
  One slot connected to \<open>mappedInt\<close>: a queued connection posts the call, any other
  runs it at once.
\<close>

definition run_slot :: "world \<Rightarrow> nat \<Rightarrow> closure \<times> ConnectionType \<Rightarrow> error + world" where
  "run_slot w b s =
     (if snd s = QueuedConnection then Inr (w\<lparr>posted := posted w @ [MetaCall b (fst s)]\<rparr>)
      else call w (fst s))"

fun run_slots :: "world \<Rightarrow> nat \<Rightarrow> (closure \<times> ConnectionType) list \<Rightarrow> error + world" where
  "run_slots w b [] = Inr w"
| "run_slots w b (s # ss) =
     (case run_slot w b s of Inl x \<Rightarrow> Inl x | Inr w1 \<Rightarrow> run_slots w1 b ss)"

text \<open>
  The slot \<open>QSignalMapper::map()\<close>, called for a signal of \<open>sender\<close>: it emits
  \<open>mappedInt\<close> if the sender has a mapping.
\<close>

definition map_slot :: "world \<Rightarrow> nat \<Rightarrow> obj \<Rightarrow> error + world" where
  "map_slot w b sender =
     (case find_mapper w b of
        None \<Rightarrow> Inr w
      | Some m \<Rightarrow> if sender \<in> set (intHash m) then run_slots w b (mappedInt m) else Inr w)"

definition deliver :: "world \<Rightarrow> connection \<Rightarrow> error + world" where
  "deliver w c =
     (case c of
        (sender, s, b, Map) \<Rightarrow> map_slot w b sender
      | (sender, s, b, DeleteLater) \<Rightarrow> Inr (deleteLater w b))"

fun deliver_all :: "world \<Rightarrow> connection list \<Rightarrow> error + world" where
  "deliver_all w [] = Inr w"
| "deliver_all w (c # cs) =
     (case deliver w c of Inl x \<Rightarrow> Inl x | Inr w1 \<Rightarrow> deliver_all w1 cs)"

text \<open>The connections of one signal of one sender, in connection order.\<close>

definition subscriptions :: "world \<Rightarrow> obj \<Rightarrow> sig \<Rightarrow> connection list" where
  "subscriptions w sender s = filter (\<lambda>c. fst c = sender \<and> fst (snd c) = s) (connections w)"

text \<open>A source object emits one of its signals.\<close>

definition emit :: "world \<Rightarrow> obj \<Rightarrow> sig \<Rightarrow> error + world" where
  "emit w sender s = deliver_all w (subscriptions w sender s)"

text \<open>The destructor of a mapper: it leaves the tree and all its connections go.\<close>

definition delete_mapper :: "world \<Rightarrow> nat \<Rightarrow> world" where
  "delete_mapper w b =
     w\<lparr>mappers := filter (\<lambda>m. mid m \<noteq> b) (mappers w),
       connections := filter (\<lambda>c. fst (snd (snd c)) \<noteq> b) (connections w)\<rparr>"

text \<open>
  \<open>delete o\<close> for an object that is not a mapper: it emits \<open>destroyed\<close>, the mappers drop
  their mapping for it, its connections go, and its children (the mappers it is the
  parent of) are deleted.
\<close>

definition destroy :: "world \<Rightarrow> obj \<Rightarrow> error + world" where
  "destroy w a =
     (if \<not> alive w a then Inl DanglingPointer
      else
        (case emit w a Destroyed of
           Inl x \<Rightarrow> Inl x
         | Inr w1 \<Rightarrow>
             (let w2 = w1\<lparr>mappers := map (\<lambda>m. m\<lparr>intHash := removeAll a (intHash m)\<rparr>) (mappers w1),
                         connections := filter (\<lambda>c. fst c \<noteq> a) (connections w1)\<rparr>;
                  w3 = fold (\<lambda>b w'. delete_mapper w' b)
                         (map mid (filter (\<lambda>m. parent m = Some a) (mappers w2))) w2
              in Inr (w3\<lparr>alive := (alive w3)(a := False)\<rparr>))))"

text \<open>
  Control returns to the event loop: the posted events are handled in order. A call
  posted for a mapper that has been deleted meanwhile is dropped.
\<close>

fun process :: "world \<Rightarrow> posted_event list \<Rightarrow> error + world" where
  "process w [] = Inr w"
| "process w (DeferredDelete b # es) = process (delete_mapper w b) es"
| "process w (MetaCall b c # es) =
     (case find_mapper w b of
        None \<Rightarrow> process w es
      | Some m \<Rightarrow> (case call w c of Inl x \<Rightarrow> Inl x | Inr w1 \<Rightarrow> process w1 es))"

definition processEvents :: "world \<Rightarrow> error + world" where
  "processEvents w = process (w\<lparr>posted := []\<rparr>) (posted w)"

section \<open>Operators of a property accessor (metaobject.h)\<close>




definition MetaProperty_bindTo :: "world \<Rightarrow> MetaProperty \<Rightarrow> MetaProperty \<Rightarrow> error + world" where
  "MetaProperty_bindTo w this prop =
     bindTo_property w (makeBindingExpr [Property this]) prop AutoConnection"

text \<open>\<open>++v\<close> and \<open>--v\<close> on a variable of type \<open>T\<close>.\<close>

fun op_inc :: "val \<Rightarrow> error + val" where
  "op_inc (VInt a) = int_result (a + 1)"
| "op_inc _ = Inl IllFormed"

fun op_dec :: "val \<Rightarrow> error + val" where
  "op_dec (VInt a) = int_result (a - 1)"
| "op_dec _ = Inl IllFormed"

text \<open>
  \<open>++get()\<close> and \<open>--get()\<close>: the operand is the temporary that \<open>get()\<close> returns. The
  built-in operators need an lvalue and the string type has none, so no type of
  the model admits the expression.
\<close>

definition op_inc_temporary :: "val \<Rightarrow> error + val" where
  "op_inc_temporary v = Inl IllFormed"

definition op_dec_temporary :: "val \<Rightarrow> error + val" where
  "op_dec_temporary v = Inl IllFormed"

text \<open>
  \<open>operator++()\<close> is \<open>T v = get(); set(++v); return v;\<close> and \<open>operator++(int)\<close> is
  \<open>const T v = get(); set(++get()); return v;\<close>; likewise for \<open>--\<close>. The step function is
  a parameter, so that the sequence of calls can be read off for any \<open>T\<close>.
\<close>

definition prefix_step ::
  "(val \<Rightarrow> error + val) \<Rightarrow> world \<Rightarrow> MetaProperty \<Rightarrow> error + (val \<times> world)" where
  "prefix_step step w this =
     (case get w this of
        Inl x \<Rightarrow> Inl x
      | Inr (v, r) \<Rightarrow>
          (case step v of
             Inl x \<Rightarrow> Inl x
           | Inr v' \<Rightarrow>
               (case set' (log w r) this v' of
                  Inl x \<Rightarrow> Inl x
                | Inr w' \<Rightarrow> Inr (v', w'))))"

definition postfix_step ::
  "(val \<Rightarrow> error + val) \<Rightarrow> world \<Rightarrow> MetaProperty \<Rightarrow> error + (val \<times> world)" where
  "postfix_step step w this =
     (case get w this of
        Inl x \<Rightarrow> Inl x
      | Inr (v, r) \<Rightarrow>
          (case get (log w r) this of
             Inl x \<Rightarrow> Inl x
           | Inr (v2, r2) \<Rightarrow>
               (case step v2 of
                  Inl x \<Rightarrow> Inl x
                | Inr v' \<Rightarrow>
                    (case set' (log (log w r) r2) this v' of
                       Inl x \<Rightarrow> Inl x
                     | Inr w' \<Rightarrow> Inr (v, w')))))"

definition pre_increment :: "world \<Rightarrow> MetaProperty \<Rightarrow> error + (val \<times> world)" where
  "pre_increment = prefix_step op_inc"

definition post_increment :: "world \<Rightarrow> MetaProperty \<Rightarrow> error + (val \<times> world)" where
  "post_increment = postfix_step op_inc_temporary"

definition pre_decrement :: "world \<Rightarrow> MetaProperty \<Rightarrow> error + (val \<times> world)" where
  "pre_decrement = prefix_step op_dec"

definition post_decrement :: "world \<Rightarrow> MetaProperty \<Rightarrow> error + (val \<times> world)" where
  "post_decrement = postfix_step op_dec_temporary"

text \<open>The compound assignments: \<open>void operator OP= (const T& v) { set(get() OP v); }\<close>.\<close>

datatype compound =
    AddAssign | SubAssign | MulAssign | DivAssign | ModAssign
  | XorAssign | AndAssign | OrAssign | ShlAssign | ShrAssign

fun compound_op :: "compound \<Rightarrow> val \<Rightarrow> val \<Rightarrow> error + val" where
  "compound_op AddAssign = op_add"
| "compound_op SubAssign = op_sub"
| "compound_op MulAssign = op_mul"
| "compound_op DivAssign = op_div"
| "compound_op ModAssign = op_mod"
| "compound_op XorAssign = op_bitxor"
| "compound_op AndAssign = op_bitand"
| "compound_op OrAssign = op_bitor"
| "compound_op ShlAssign = op_shl"
| "compound_op ShrAssign = op_shr"

definition compound_assign :: "compound \<Rightarrow> world \<Rightarrow> MetaProperty \<Rightarrow> val \<Rightarrow> error + world" where
  "compound_assign c w this v =
     (case get w this of
        Inl x \<Rightarrow> Inl x
      | Inr (g, r) \<Rightarrow>
          (case compound_op c g v of
             Inl x \<Rightarrow> Inl x
           | Inr v' \<Rightarrow> set' (log w r) this v'))"

section \<open>Static types of expressions\<close>


definition both :: "ty \<Rightarrow> ty \<Rightarrow> ty \<Rightarrow> ty \<Rightarrow> ty option" where
  "both t res a b = (if a = t \<and> b = t then Some res else None)"






section \<open>Well-formed toolkit states\<close>


text \<open>
  Mapper identities are distinct and below the next unused one, no connection
  occurs twice, and no two mappers with a parent have the same parent and name.
\<close>

definition well_formed :: "world \<Rightarrow> bool" where
  "well_formed w =
     (distinct (map mid (mappers w))
      \<and> list_all (\<lambda>m. mid m < next_mid w) (mappers w)
      \<and> distinct (connections w)
      \<and> distinct (map (\<lambda>m. (parent m, objectName m)) (filter (\<lambda>m. parent m \<noteq> None) (mappers w))))"


section \<open>A concrete scene\<close>

text \<open>
  Three sliders at the addresses 1, 2 and 3, each with the property \<open>value\<close> of type
  \<open>int\<close> (read, write and notify signal \<open>valueChanged\<close>) and the property \<open>minimum\<close>
  (read and write, no notify signal). Their values are 2, 3 and 0. Nothing is bound
  yet. The theorems below are instantiated in this scene.
\<close>

definition slider_value :: "obj \<Rightarrow> MetaProperty" where
  "slider_value a =
     \<lparr>Class = ''QSlider'', Info = ''value'', Type = TInt, Getter = True, Setter = True,
      Notify = Some ''valueChanged'', Reset = False, object = a\<rparr>"

definition slider_minimum :: "obj \<Rightarrow> MetaProperty" where
  "slider_minimum a =
     \<lparr>Class = ''QSlider'', Info = ''minimum'', Type = TInt, Getter = True, Setter = True,
      Notify = None, Reset = False, object = a\<rparr>"

definition scene :: world where
  "scene =
     \<lparr>alive = (\<lambda>a. a = 1 \<or> a = 2 \<or> a = 3),
      attrs = (\<lambda>a n. if n = ''value'' then (if a = 1 then VInt 2 else if a = 2 then VInt 3 else VInt 0)
                      else VInt 0),
      methods = (\<lambda>fn a args. Inl IllFormed),
      trace = [], mappers = [], connections = [], posted = [], next_mid = 0\<rparr>"

text \<open>Two expressions over the scene: a sum, and a quotient whose divisor is 0.\<close>

definition sum_expr :: BindingExpr where
  "sum_expr = BindingExpr ActionAdd [Property (slider_value 1), Property (slider_value 2)]"



section \<open>One application of a binding\<close>



text \<open>Sequencing of steps that may fail.\<close>

definition and_then :: "error + 'a \<Rightarrow> ('a \<Rightarrow> error + 'b) \<Rightarrow> error + 'b" where
  "and_then r k = (case r of Inl x \<Rightarrow> Inl x | Inr a \<Rightarrow> k a)"

text \<open>
  More of the scene: an expression without observable leaf, a callable that takes
  no argument and one that takes the value.
\<close>

definition plain_expr :: BindingExpr where
  "plain_expr = BindingExpr ActionAdd [Property (slider_minimum 1), Literal (VInt 7)]"



text \<open>Two states with the same objects, attributes, member functions and trace.\<close>

definition same_objects :: "world \<Rightarrow> world \<Rightarrow> bool" where
  "same_objects w w' =
     (alive w' = alive w \<and> attrs w' = attrs w \<and> methods w' = methods w \<and> trace w' = trace w)"

text \<open>
  The part of a mapper that never changes after its creation, and the relation
  between a state and a later one in which only connections were added and
  senders were registered with mappers: what \<open>bind\<close> does.
\<close>

definition skeleton :: "world \<Rightarrow> (nat \<times> obj option \<times> string) list" where
  "skeleton w = map (\<lambda>m. (mid m, parent m, objectName m)) (mappers w)"

definition grows :: "world \<Rightarrow> world \<Rightarrow> bool" where
  "grows w w' =
     (same_objects w w' \<and> skeleton w' = skeleton w \<and> posted w' = posted w
      \<and> next_mid w' = next_mid w
      \<and> set (connections w) \<subseteq> set (connections w')
      \<and> (distinct (connections w) \<longrightarrow> distinct (connections w'))
      \<and> (\<forall>b. map_option mappedInt (find_mapper w' b) = map_option mappedInt (find_mapper w b))
      \<and> (\<forall>b m. find_mapper w b = Some m \<longrightarrow>
            (\<exists>m'. find_mapper w' b = Some m' \<and> set (intHash m) \<subseteq> set (intHash m'))))"

text \<open>The scene after the sum of the first two slider values is bound to the third.\<close>

definition bound_scene :: "error + world" where
  "bound_scene = bindTo_property scene sum_expr (slider_value 3) AutoConnection"

text \<open>
  A second observable expression, and the scene after the sum has been bound twice
  to the callable \<open>display\<close> without receiver.
\<close>

definition difference_expr :: BindingExpr where
  "difference_expr = BindingExpr ActionSub [Property (slider_value 1), Property (slider_value 2)]"


section \<open>Evaluating the scene\<close>

lemmas scene_simps = scene_def slider_value_def slider_minimum_def get_def set'_def log_def
  isReadable_def isWritable_def apply_action_def int_result_def both_def

section \<open>Observability\<close>

lemma observable_leaves:
  "is_observable a = (\<exists>p\<in>set (leaves_arg a). hasNotifySignal p)"
  "is_observable_pack as = (\<exists>p\<in>set (leaves_args as). hasNotifySignal p)"
  "isObservable e = (\<exists>p\<in>set (leaves e). hasNotifySignal p)"
  by (induction a and as and e rule: is_observable_is_observable_pack_isObservable.induct) auto

lemma observable_pack_iff: "is_observable_pack as = (\<exists>a\<in>set as. is_observable a)"
  by (induction as) auto

text \<open>
  C6. \<open>isObservable\<close> is computed from the structure of the expression alone (it takes
  no state): for an expression it is the disjunction over its operands, an operand
  that is an expression counts as that expression does, a property operand counts
  iff its descriptor has a notify signal, and a plain operand never counts. So an
  expression is observable iff one of its property leaves has a notify signal.
\<close>

theorem isObservable_structural:
  "isObservable (BindingExpr act as) = (\<exists>a\<in>set as. is_observable a)
   \<and> is_observable (Expr e) = isObservable e
   \<and> is_observable (Property p) = hasNotifySignal p
   \<and> hasNotifySignal p = (Notify p \<noteq> None)
   \<and> is_observable (Literal v) = False
   \<and> isObservable e = (\<exists>q\<in>set (leaves e). hasNotifySignal q)"
proof (intro conjI)
  show "isObservable (BindingExpr act as) = (\<exists>a\<in>set as. is_observable a)"
    by (simp add: observable_pack_iff)
  show "hasNotifySignal p = (Notify p \<noteq> None)"
    by (simp add: hasNotifySignal_def)
  show "isObservable e = (\<exists>q\<in>set (leaves e). hasNotifySignal q)"
    by (rule observable_leaves(3))
qed simp_all

section \<open>Eager evaluation\<close>





section \<open>Failures of evaluation\<close>










section \<open>Increment, decrement and compound assignment\<close>

lemma compound_assign_effect:
  "compound_assign c w this v = Inr w' \<Longrightarrow>
   \<exists>g v'. compound_op c g v = Inr v' \<and> g = attrs w (object this) (Info this)
     \<and> trace w' = trace w @ [Read (object this) (Info this), Write (object this) (Info this) v']
     \<and> mappers w' = mappers w \<and> connections w' = connections w \<and> posted w' = posted w"
  by (auto simp: compound_assign_def get_def set'_def log_def split: sum.splits if_splits)

lemma prefix_step_effect:
  "prefix_step step w this = Inr (v', w') \<Longrightarrow>
   step (attrs w (object this) (Info this)) = Inr v'
     \<and> trace w' = trace w @ [Read (object this) (Info this), Write (object this) (Info this) v']
     \<and> mappers w' = mappers w \<and> connections w' = connections w \<and> posted w' = posted w"
  by (auto simp: prefix_step_def get_def set'_def log_def split: sum.splits if_splits)

text \<open>
  C10 at the postfix forms. The prefix increment reads once and writes once. The
  postfix increment \<open>set(++get())\<close> applies \<open>++\<close> to a temporary, which no built-in type
  and no string allows; with a type that allows it, the body calls \<open>get()\<close> twice
  before the one \<open>set\<close>.
\<close>

theorem postfix_increment_reads_twice:
  "map_sum id (\<lambda>r. trace (snd r)) (pre_increment scene (slider_value 1))
     = Inr [Read 1 ''value'', Write 1 ''value'' (VInt 3)]
   \<and> post_increment scene (slider_value 1) = Inl IllFormed
   \<and> map_sum id (\<lambda>r. trace (snd r)) (postfix_step op_inc scene (slider_value 1))
     = Inr [Read 1 ''value'', Read 1 ''value'', Write 1 ''value'' (VInt 3)]"
  by (simp add: pre_increment_def post_increment_def prefix_step_def postfix_step_def
      op_inc_temporary_def scene_simps)

section \<open>What the wiring leaves alone\<close>



lemma same_objects_refl [simp]: "same_objects w w"
  by (simp add: same_objects_def)


lemma same_objects_simps [simp]:
  "same_objects w (connect w c)"
  "same_objects w (update_mapper b f w)"
  "same_objects w (deleteLater w b)"
  "same_objects w (snd (new_QSignalMapper w r name))"
  by (simp_all add: same_objects_def connect_def update_mapper_def deleteLater_def new_QSignalMapper_def)






lemma log_simps [simp]:
  "trace (log w es) = trace w @ es" "attrs (log w es) = attrs w" "alive (log w es) = alive w"
  "methods (log w es) = methods w" "mappers (log w es) = mappers w"
  "connections (log w es) = connections w" "posted (log w es) = posted w"
  "next_mid (log w es) = next_mid w"
  by (simp_all add: log_def)





lemma bindTo_valid: "bindTo w e r f t name = Inr w' \<Longrightarrow> valid_slot f"
  by (simp add: bindTo_def split: if_splits)


lemmas wiring_simps = bindTo_property_def bindTo_func_def bindTo_receiver_def bindTo_def
  bindTo_wire_def valid_slot_def findChild_def new_QSignalMapper_def bind1_def connect_def
  setMapping_def connect_functor_def disconnect_def deleteLater_def update_mapper_def call_def
  invoke_slot_def bindingName_def hasNotifySignal_def

section \<open>Every bindTo applies once\<close>




section \<open>Mappers\<close>


lemma skeleton_update:
  assumes "\<And>m. mid (f m) = mid m" "\<And>m. parent (f m) = parent m" "\<And>m. objectName (f m) = objectName m"
  shows "skeleton (update_mapper b f w) = skeleton w"
  by (simp add: skeleton_def update_mapper_def assms)

lemma update_mapper_fields [simp]:
  "connections (update_mapper b f w) = connections w"
  "posted (update_mapper b f w) = posted w"
  "next_mid (update_mapper b f w) = next_mid w"
  by (simp_all add: update_mapper_def)

lemma connect_fields [simp]:
  "mappers (connect w c) = mappers w"
  "posted (connect w c) = posted w"
  "next_mid (connect w c) = next_mid w"
  "set (connections (connect w c)) = insert c (set (connections w))"
  "distinct (connections w) \<Longrightarrow> distinct (connections (connect w c))"
  by (auto simp: connect_def)

lemma skeleton_connect [simp]: "skeleton (connect w c) = skeleton w"
  by (simp add: skeleton_def)

lemma find_mapper_connect [simp]: "find_mapper (connect w c) b = find_mapper w b"
  by (simp add: find_mapper_def)

lemma grows_refl [simp]: "grows w w"
  by (simp add: grows_def)









section \<open>Well-formed states\<close>

lemma wf_skeleton:
  "well_formed w = (distinct (map fst (skeleton w))
     \<and> list_all (\<lambda>s. fst s < next_mid w) (skeleton w)
     \<and> distinct (connections w)
     \<and> distinct (map snd (filter (\<lambda>s. fst (snd s) \<noteq> None) (skeleton w))))"
  by (simp add: well_formed_def skeleton_def comp_def filter_map list.pred_map)


lemma wf_grows: "well_formed w \<Longrightarrow> grows w w' \<Longrightarrow> well_formed w'"
  by (auto simp: wf_skeleton grows_def)





section \<open>The event loop\<close>


section \<open>Expressions without observable leaf\<close>


section \<open>One firing, one application\<close>









section \<open>Reachable states are well-formed\<close>






lemma skeleton_disconnect [simp]: "skeleton (disconnect w b) = skeleton w"
  unfolding disconnect_def by (rule skeleton_update) simp_all

lemma disconnect_fields [simp]:
  "connections (disconnect w b) = connections w" "next_mid (disconnect w b) = next_mid w"
  "posted (disconnect w b) = posted w"
  by (simp_all add: disconnect_def)












lemma fold_delete_alive [simp]:
  "alive (fold (\<lambda>b w'. delete_mapper w' b) bs w) = alive w"
  by (induction bs arbitrary: w) (simp_all add: delete_mapper_def)





section \<open>One-shot bindings\<close>




section \<open>Firing a bound leaf\<close>



lemmas signal_simps = emit_def subscriptions_def deliver_def map_slot_def find_mapper_def
  run_slot_def



section \<open>One mapper per receiver and name\<close>









lemmas loop_simps = destroy_def delete_mapper_def processEvents_def Let_def

text \<open>
  After a slot is rebound to an expression over the second slider only, the
  connection of the first slider to the mapper is still there, and its change
  signal re-evaluates the new expression.
\<close>

lemma rebind_keeps_old_subscription:
  "map_sum id (\<lambda>w. (connections w, trace w))
     (and_then bound_scene
        (\<lambda>w. and_then (bindTo_property w (makeBindingExpr [Property (slider_value 2)])
                          (slider_value 3) AutoConnection)
           (\<lambda>w. emit (w\<lparr>trace := []\<rparr>) 1 (Changed ''valueChanged''))))
   = Inr ([(1, Destroyed, 0, DeleteLater), (1, Changed ''valueChanged'', 0, Map),
           (2, Destroyed, 0, DeleteLater), (2, Changed ''valueChanged'', 0, Map)],
          [Read 2 ''value'', Write 3 ''value'' (VInt 3)])"
  by (simp add: bound_scene_def and_then_def sum_expr_def makeBindingExpr_def scene_simps
      wiring_simps signal_simps)

text \<open>
  A mapper that a one-shot \<open>bindTo\<close> has scheduled for deletion is reused by the next
  \<open>bindTo\<close> on the slot and deleted at the next pass of the event loop, together with
  the binding just made.
\<close>

lemma rebind_on_scheduled_mapper:
  "map_sum id (\<lambda>w. (mappers w, connections w, trace w))
     (and_then bound_scene
        (\<lambda>w. and_then (bindTo_property w plain_expr (slider_value 3) AutoConnection)
           (\<lambda>w. and_then (bindTo_property w difference_expr (slider_value 3) AutoConnection)
              (\<lambda>w. and_then (processEvents w)
                 (\<lambda>w. emit (w\<lparr>trace := []\<rparr>) 1 (Changed ''valueChanged''))))))
   = Inr ([], [], [])"
  by (simp add: bound_scene_def and_then_def sum_expr_def plain_expr_def difference_expr_def
      scene_simps wiring_simps signal_simps loop_simps)

section \<open>Assignment to an accessor\<close>






section \<open>Destruction of a leaf's object\<close>

text \<open>
  C8 at its failing input. The sum of the first two slider values is bound to the
  third, and the first slider is destroyed. Its connections are gone and the
  mapper is scheduled for deletion, but it still exists and is still connected to
  the second slider. A change signal of the second slider before the next pass of
  the event loop runs the callback, whose expression reads the destroyed slider.
  After the event loop has run, the mapper is gone and the signal does nothing.
\<close>

theorem dangling_leaf_after_destroy:
  "map_sum id (\<lambda>w. (alive w 1, connections w, posted w, map mid (mappers w)))
       (and_then bound_scene (\<lambda>w. destroy w 1))
     = Inr (False, [(2, Destroyed, 0, DeleteLater), (2, Changed ''valueChanged'', 0, Map)],
            [DeferredDelete 0], [0])
   \<and> and_then bound_scene (\<lambda>w. and_then (destroy w 1)
        (\<lambda>w. emit w 2 (Changed ''valueChanged''))) = Inl DanglingPointer
   \<and> map_sum id (\<lambda>w. (mappers w, connections w, trace w))
        (and_then bound_scene (\<lambda>w. and_then (destroy w 1)
           (\<lambda>w. and_then (processEvents w)
              (\<lambda>w. emit (w\<lparr>trace := []\<rparr>) 2 (Changed ''valueChanged'')))))
      = Inr ([], [], [])"
  by (simp add: bound_scene_def and_then_def sum_expr_def scene_simps wiring_simps signal_simps
      loop_simps)


end
